theory Spec2Isabelle
  imports Complex_Main
begin

section \<open>Python primitives used by the pipeline\<close>

text \<open>
  Python floats are modelled as exact reals: every formula below is the source's formula
  read over \<open>real\<close>, without binary rounding error, infinities or NaN. Python's unbounded
  integers are \<open>int\<close>, lengths and counters that only grow from zero are \<open>nat\<close>.
\<close>

text \<open>
  The KPI formulas round their result with \<open>round(x, 1)\<close>. Where the exact value lies on
  a decimal tie (or within float error of one) the program's float can round the other
  way; the theorems below fix a rounded value only at inputs whose float computation is
  exact, and otherwise speak of the unrounded score and of ranges.
\<close>

text \<open>
  Text that the program lower-cases is a list of Unicode code points, as a Python
  \<open>str\<close> is; \<open>str_of\<close> gives the code points of an ASCII literal. File names, which are
  only split at dots and compared, stay byte strings.
\<close>

type_synonym py_str = "nat list"

definition str_of :: "string \<Rightarrow> py_str" where
  "str_of s = map of_char s"

text \<open>
  A dictionary whose keys are strings is an association list read with \<open>map_of\<close>;
  \<open>d.get(k, default)\<close> is \<open>dict_get\<close>, \<open>k in d\<close> is \<open>dict_has\<close>, and the truth
  value of a dictionary (\<open>if d:\<close>) is \<open>d \<noteq> []\<close>.
\<close>

type_synonym num_dict = "(string \<times> real) list"

definition dict_get :: "num_dict \<Rightarrow> string \<Rightarrow> real \<Rightarrow> real" where
  "dict_get d k dflt = (case map_of d k of None \<Rightarrow> dflt | Some v \<Rightarrow> v)"

definition dict_has :: "num_dict \<Rightarrow> string \<Rightarrow> bool" where
  "dict_has d k = (case map_of d k of None \<Rightarrow> False | Some v \<Rightarrow> True)"

text \<open>\<open>int(x)\<close> on a float truncates towards zero.\<close>

definition py_int :: "real \<Rightarrow> int" where
  "py_int x = (if 0 \<le> x then \<lfloor>x\<rfloor> else \<lceil>x\<rceil>)"

text \<open>
  \<open>round(x, n)\<close> rounds to \<open>n\<close> decimals, a tie going to the even neighbour.
\<close>

definition round_half_even :: "real \<Rightarrow> int" where
  "round_half_even x =
     (let f = \<lfloor>x\<rfloor>; d = x - of_int f
      in if d < 1 / 2 then f
         else if 1 / 2 < d then f + 1
         else if even f then f else f + 1)"

definition py_round :: "real \<Rightarrow> nat \<Rightarrow> real" where
  "py_round x n = of_int (round_half_even (x * 10 ^ n)) / 10 ^ n"

text \<open>\<open>np.mean\<close> of a one-dimensional array.\<close>

definition np_mean :: "real list \<Rightarrow> real" where
  "np_mean xs = sum_list xs / real (length xs)"

section \<open>Activity data: commits and pull requests\<close>

text \<open>
  A commit is the nested dictionary the hosting API returns; the KPI code reads only
  \<open>commit.get('commit', {}).get('author', {}).get('name')\<close>. Each level is a dictionary
  whose key may be absent (\<open>None\<close> here), so the author name of the spec's commit summary
  is the value found at the end of that path.
\<close>

datatype author_dict = Author_Dict (name: "string option")
datatype commit_dict = Commit_Dict (author: "author_dict option")
datatype commit = Commit (commit: "commit_dict option")

definition commit_author_name :: "commit \<Rightarrow> string option" where
  "commit_author_name c =
     (case commit c of
        None \<Rightarrow> None
      | Some cd \<Rightarrow> (case author cd of None \<Rightarrow> None | Some a \<Rightarrow> name a))"

text \<open>Of a pull request the code reads only \<open>pr.get('merged_at')\<close>.\<close>

datatype pull_request = Pull_Request (merged_at: "string option")

definition truthy_str :: "string option \<Rightarrow> bool" where
  "truthy_str s = (case s of None \<Rightarrow> False | Some v \<Rightarrow> v \<noteq> [])"

definition truthy_list :: "'a list option \<Rightarrow> bool" where
  "truthy_list l = (case l of None \<Rightarrow> False | Some v \<Rightarrow> v \<noteq> [])"

section \<open>Productivity KPIs (kpi\_calculator.py)\<close>

record productivity_kpis =
  productivity_score :: real
  commit_frequency :: nat
  pr_merge_rate :: real
  avg_pr_size :: nat
  active_contributors :: nat

text \<open>The loop that collects the distinct, non-empty author names into a set.\<close>

fun collect_contributors :: "commit list \<Rightarrow> string set \<Rightarrow> string set" where
  "collect_contributors [] acc = acc"
| "collect_contributors (c # cs) acc =
     collect_contributors cs
       (if truthy_str (commit_author_name c) then insert (the (commit_author_name c)) acc
        else acc)"

definition calculate_productivity_kpis ::
  "commit list option \<Rightarrow> pull_request list option \<Rightarrow> productivity_kpis" where
  "calculate_productivity_kpis commits prs =
     (if \<not> truthy_list commits \<and> \<not> truthy_list prs then
        \<lparr>productivity_score = 0, commit_frequency = 0, pr_merge_rate = 0,
         avg_pr_size = 0, active_contributors = 0\<rparr>
      else
        let commit_count = (if truthy_list commits then length (the commits) else 0);
            pr_count = (if truthy_list prs then length (the prs) else 0);
            merged_prs = (if truthy_list prs
                          then length (filter (\<lambda>pr. truthy_str (merged_at pr)) (the prs))
                          else 0);
            pr_merge_rate = (if 0 < pr_count
                             then (real merged_prs / real (max pr_count 1)) * 100 else 0);
            contributors = (if truthy_list commits
                            then collect_contributors (the commits) {} else {});
            commit_score = min 100 ((real commit_count / 10) * 100);
            pr_score = (if 0 < pr_count then pr_merge_rate else 50);
            contributor_score = min 100 ((real (card contributors) / 5) * 100);
            productivity_score =
              (commit_score * (4 / 10)) + (pr_score * (3 / 10)) + (contributor_score * (3 / 10))
        in \<lparr>productivity_score = py_round productivity_score 1,
            commit_frequency = commit_count,
            pr_merge_rate = py_round pr_merge_rate 1,
            avg_pr_size = 0,
            active_contributors = card contributors\<rparr>)"

section \<open>Per-file analysis records\<close>

text \<open>
  The dictionary \<open>analyze_code_file\<close> builds for one file. The keys \<open>metrics\<close> and
  \<open>documentation\<close> are always set by the extractor and read with \<open>a['metrics']\<close>, so
  they are plain fields; the others are read with \<open>.get\<close> and may be absent. Only the
  numeric entries of the inner dictionaries are kept: the aggregation code reads no other
  entry.
\<close>

record analysis =
  filename :: "string option"
  metrics :: num_dict
  smells :: "py_str list option"
  naming :: "num_dict option"
  documentation :: num_dict
  semantic :: "num_dict option"
  error :: "string option"

text \<open>\<open>a.get('smells', [])\<close> and the truth value of \<open>a.get('naming')\<close>.\<close>

definition smells_of :: "analysis \<Rightarrow> py_str list" where
  "smells_of a = (case smells a of None \<Rightarrow> [] | Some l \<Rightarrow> l)"

definition truthy_dict :: "num_dict option \<Rightarrow> bool" where
  "truthy_dict d = (case d of None \<Rightarrow> False | Some v \<Rightarrow> v \<noteq> [])"

section \<open>Quality, maintainability and security KPIs (kpi\_calculator.py)\<close>

definition calculate_quality_score :: "real \<Rightarrow> real \<Rightarrow> real \<Rightarrow> real" where
  "calculate_quality_score avg_complexity comment_ratio smell_density =
     (let complexity_score0 = (if 5 < avg_complexity
                               then max 0 (100 - (avg_complexity - 5) * 10) else 100);
          complexity_score = max 0 (min 100 complexity_score0);
          doc_score = min 100 (comment_ratio * 300);
          smell_score0 = max 0 (100 - smell_density * 5);
          smell_score = max 0 (min 100 smell_score0)
      in (complexity_score * (4 / 10)) + (doc_score * (3 / 10)) + (smell_score * (3 / 10)))"

record quality_kpis =
  quality_score :: real
  avg_complexity :: real
  code_smell_density :: real
  documentation_coverage :: real
  total_code_smells :: nat
  total_lines_of_code :: real

definition total_lines_sum :: "analysis list \<Rightarrow> real" where
  "total_lines_sum nlp_analyses =
     sum_list (map (\<lambda>a. dict_get (metrics a) ''total_lines'' 0) nlp_analyses)"

definition total_smells_sum :: "analysis list \<Rightarrow> nat" where
  "total_smells_sum nlp_analyses = sum_list (map (\<lambda>a. length (smells_of a)) nlp_analyses)"

definition batch_avg_complexity :: "analysis list \<Rightarrow> real" where
  "batch_avg_complexity nlp_analyses =
     (let complexities = map (\<lambda>a. dict_get (metrics a) ''avg_complexity'' 0)
                           (filter (\<lambda>a. dict_has (metrics a) ''avg_complexity'') nlp_analyses)
      in if complexities \<noteq> [] then np_mean complexities else 0)"

definition batch_avg_comment_ratio :: "analysis list \<Rightarrow> real" where
  "batch_avg_comment_ratio nlp_analyses =
     (let comment_ratios = map (\<lambda>a. dict_get (metrics a) ''comment_ratio'' 0) nlp_analyses
      in if comment_ratios \<noteq> [] then np_mean comment_ratios else 0)"

definition batch_smell_density :: "analysis list \<Rightarrow> real" where
  "batch_smell_density nlp_analyses =
     (real (total_smells_sum nlp_analyses) / max (total_lines_sum nlp_analyses) 1) * 1000"

definition calculate_quality_kpis :: "analysis list \<Rightarrow> quality_kpis" where
  "calculate_quality_kpis nlp_analyses =
     (let total_lines = total_lines_sum nlp_analyses;
          total_smells = total_smells_sum nlp_analyses;
          avg_complexity = batch_avg_complexity nlp_analyses;
          avg_comment_ratio = batch_avg_comment_ratio nlp_analyses;
          smell_density = batch_smell_density nlp_analyses;
          quality_score = calculate_quality_score avg_complexity avg_comment_ratio smell_density
      in \<lparr>quality_score = py_round quality_score 1,
          avg_complexity = py_round avg_complexity 2,
          code_smell_density = py_round smell_density 2,
          documentation_coverage = py_round (avg_comment_ratio * 100) 1,
          total_code_smells = total_smells,
          total_lines_of_code = total_lines\<rparr>)"

record maintainability_kpis =
  maintainability_index :: real
  naming_consistency :: real
  vocabulary_richness :: real
  technical_debt_hours :: nat
  technical_debt_days :: real

definition mean_or_zero :: "real list \<Rightarrow> real" where
  "mean_or_zero xs = (if xs \<noteq> [] then np_mean xs else 0)"

definition calculate_maintainability_kpis :: "analysis list \<Rightarrow> maintainability_kpis" where
  "calculate_maintainability_kpis nlp_analyses =
     (let mi_scores = map (\<lambda>a. dict_get (metrics a) ''maintainability_index'' 0)
                        (filter (\<lambda>a. dict_has (metrics a) ''maintainability_index'') nlp_analyses);
          avg_mi = mean_or_zero mi_scores;
          naming_scores = map (\<lambda>a. dict_get (the (naming a)) ''consistency_score'' 0)
                            (filter (\<lambda>a. truthy_dict (naming a)) nlp_analyses);
          avg_naming_consistency = mean_or_zero naming_scores;
          vocab_scores = map (\<lambda>a. dict_get (the (semantic a)) ''vocabulary_richness'' 0)
                           (filter (\<lambda>a. truthy_dict (semantic a)) nlp_analyses);
          avg_vocab_richness = mean_or_zero vocab_scores;
          total_smells = total_smells_sum nlp_analyses;
          high_complexity_files =
            length (filter (\<lambda>a. 10 < dict_get (metrics a) ''max_complexity'' 0) nlp_analyses);
          technical_debt_hours = (total_smells * 2) + (high_complexity_files * 8)
      in \<lparr>maintainability_index = py_round avg_mi 1,
          naming_consistency = py_round (avg_naming_consistency * 100) 1,
          vocabulary_richness = py_round (avg_vocab_richness * 100) 1,
          technical_debt_hours = technical_debt_hours,
          technical_debt_days = py_round (real technical_debt_hours / 8) 1\<rparr>)"

text \<open>
  \<open>str.lower()\<close> lower-cases code point by code point. \<open>A\<close> to \<open>Z\<close> become \<open>a\<close> to
  \<open>z\<close>; the Kelvin sign U+212A becomes \<open>k\<close>; the dotted capital I, U+0130, becomes \<open>i\<close>
  followed by the combining dot U+0307; every other ASCII code point is kept. Every other
  code point above 127 lower-cases to code points above 127: the model keeps it as it
  is, which leaves every occurrence of ASCII text in the result where it is.
\<close>

definition lower_cp :: "nat \<Rightarrow> py_str" where
  "lower_cp c =
     (if 65 \<le> c \<and> c \<le> 90 then [c + 32]
      else if c = 304 then [105, 775]
      else if c = 8490 then [107]
      else [c])"

definition py_lower :: "py_str \<Rightarrow> py_str" where
  "py_lower s = concat (map lower_cp s)"

text \<open>The substring test \<open>keyword in smell\<close>.\<close>

fun startswith :: "'a list \<Rightarrow> 'a list \<Rightarrow> bool" where
  "startswith s [] = True"
| "startswith [] (k # ks) = False"
| "startswith (c # cs) (k # ks) = (c = k \<and> startswith cs ks)"

fun py_in :: "'a list \<Rightarrow> 'a list \<Rightarrow> bool" where
  "py_in k [] = (k = [])"
| "py_in k (c # cs) = (startswith (c # cs) k \<or> py_in k cs)"

definition security_keywords :: "py_str list" where
  "security_keywords =
     map str_of [''password'', ''secret'', ''token'', ''api_key'', ''private_key'']"

definition is_security_smell :: "py_str \<Rightarrow> bool" where
  "is_security_smell smell = list_ex (\<lambda>keyword. py_in keyword (py_lower smell)) security_keywords"

text \<open>The two nested loops that increment \<open>security_issues\<close>.\<close>

fun count_in_smells :: "py_str list \<Rightarrow> nat \<Rightarrow> nat" where
  "count_in_smells [] security_issues = security_issues"
| "count_in_smells (smell # rest) security_issues =
     count_in_smells rest (if is_security_smell smell then security_issues + 1
                           else security_issues)"

fun count_in_analyses :: "analysis list \<Rightarrow> nat \<Rightarrow> nat" where
  "count_in_analyses [] security_issues = security_issues"
| "count_in_analyses (a # rest) security_issues =
     count_in_analyses rest (count_in_smells (smells_of a) security_issues)"

record security_kpis =
  security_issue_count :: nat
  risk_score :: nat
  high_complexity_files :: nat

definition calculate_security_kpis :: "analysis list \<Rightarrow> security_kpis" where
  "calculate_security_kpis nlp_analyses =
     (let security_issues = count_in_analyses nlp_analyses 0;
          total_smells = total_smells_sum nlp_analyses;
          high_complexity_count =
            length (filter (\<lambda>a. 15 < dict_get (metrics a) ''max_complexity'' 0) nlp_analyses);
          risk_score = min 100 ((security_issues * 10) + (high_complexity_count * 5)
                                + (total_smells * 2))
      in \<lparr>security_issue_count = security_issues,
          risk_score = risk_score,
          high_complexity_files = high_complexity_count\<rparr>)"

section \<open>The KPI report (kpi\_calculator.py)\<close>

text \<open>
  A category that the code returns as the empty dictionary \<open>{}\<close> is \<open>None\<close>. The
  timestamp is the clock reading at the call, passed in as \<open>now\<close>.
\<close>

record summary_kpis =
  overall_health_score :: real
  grade :: string
  analyzed_files :: nat
  timestamp :: "string option"

record kpis =
  quality :: "quality_kpis option"
  maintainability :: "maintainability_kpis option"
  productivity :: "productivity_kpis option"
  security :: "security_kpis option"
  summary :: summary_kpis

definition calculate_overall_score :: "quality_kpis \<Rightarrow> maintainability_kpis \<Rightarrow> real" where
  "calculate_overall_score q m =
     py_round ((quality_score q * (6 / 10)) + (maintainability_index m * (4 / 10))) 1"

definition score_to_grade :: "real \<Rightarrow> string" where
  "score_to_grade score =
     (if 90 \<le> score then ''A''
      else if 80 \<le> score then ''B''
      else if 70 \<le> score then ''C''
      else if 60 \<le> score then ''D''
      else ''F'')"

definition empty_kpis :: kpis where
  "empty_kpis =
     \<lparr>quality = None, maintainability = None, productivity = None, security = None,
      summary = \<lparr>overall_health_score = 0, grade = ''N/A'', analyzed_files = 0,
                 timestamp = None\<rparr>\<rparr>"

definition calculate_kpis ::
  "analysis list \<Rightarrow> 'r \<Rightarrow> commit list option \<Rightarrow> pull_request list option \<Rightarrow> string \<Rightarrow> kpis"
  where
  "calculate_kpis nlp_analyses repo_data commits prs now =
     (if nlp_analyses = [] then empty_kpis
      else
        let q = calculate_quality_kpis nlp_analyses;
            m = calculate_maintainability_kpis nlp_analyses;
            overall = calculate_overall_score q m
        in \<lparr>quality = Some q,
            maintainability = Some m,
            productivity = Some (calculate_productivity_kpis commits prs),
            security = Some (calculate_security_kpis nlp_analyses),
            summary = \<lparr>overall_health_score = overall,
                       grade = score_to_grade overall,
                       analyzed_files = length nlp_analyses,
                       timestamp = Some now\<rparr>\<rparr>)"

section \<open>Metrics extractor: the unsupported-extension path (nlp\_analyzer.py)\<close>

text \<open>\<open>s.split(sep)\<close> for a one-character separator; the result is never empty.\<close>

fun py_split :: "char \<Rightarrow> string \<Rightarrow> string list" where
  "py_split sep [] = [[]]"
| "py_split sep (c # cs) =
     (if c = sep then [] # py_split sep cs
      else (case py_split sep cs of
              [] \<Rightarrow> [[c]]
            | w # ws \<Rightarrow> (c # w) # ws))"

definition file_ext_of :: "string \<Rightarrow> string" where
  "file_ext_of fname =
     (if CHR ''.'' \<in> set fname then last (py_split (CHR ''.'') fname) else [])"

definition code_extensions :: "string list" where
  "code_extensions =
     [''py'', ''js'', ''ts'', ''jsx'', ''tsx'', ''go'', ''java'', ''rs'', ''cpp'', ''c'', ''cs'']"

text \<open>
  The body of the \<open>try\<close> block (line counting, the complexity library, smell and naming
  heuristics, the language toolkit) is the parameter \<open>analyze_supported\<close>: it receives the
  initial record, the content, the extension and the mode flag, and returns the filled
  record. It runs only for a supported extension.
\<close>

definition analyze_code_file ::
  "(analysis \<Rightarrow> string \<Rightarrow> string \<Rightarrow> bool \<Rightarrow> analysis) \<Rightarrow> string \<Rightarrow> string \<Rightarrow> bool \<Rightarrow> analysis"
  where
  "analyze_code_file analyze_supported fname content fast_mode =
     (let results = \<lparr>filename = Some fname, metrics = [], smells = Some [],
                      naming = Some [], documentation = [], semantic = None, error = None\<rparr>;
          file_ext = file_ext_of fname
      in if file_ext \<notin> set code_extensions then results
         else analyze_supported results content file_ext fast_mode)"

text \<open>
  The loop of \<open>analyze_repo\<close> (routes/repos.py) that builds the batch: one record per
  fetched file, appended unconditionally, in thorough mode.
\<close>

record file_data =
  path :: string
  name :: string
  content :: string

fun build_nlp_analyses ::
  "(analysis \<Rightarrow> string \<Rightarrow> string \<Rightarrow> bool \<Rightarrow> analysis) \<Rightarrow> file_data list \<Rightarrow> analysis list
     \<Rightarrow> analysis list" where
  "build_nlp_analyses analyze_supported [] nlp_analyses = nlp_analyses"
| "build_nlp_analyses analyze_supported (fd # rest) nlp_analyses =
     build_nlp_analyses analyze_supported rest
       (nlp_analyses @ [analyze_code_file analyze_supported (name fd) (content fd) False])"

section \<open>Feature vectors (anomaly\_detector.py)\<close>

definition opt_dict :: "num_dict option \<Rightarrow> num_dict" where
  "opt_dict d = (case d of None \<Rightarrow> [] | Some v \<Rightarrow> v)"

definition file_features_of :: "analysis \<Rightarrow> real list" where
  "file_features_of a =
     (let metrics = metrics a; naming = opt_dict (naming a); semantic = opt_dict (semantic a)
      in [dict_get metrics ''total_lines'' 0,
          dict_get metrics ''non_empty_lines'' 0,
          dict_get metrics ''comment_lines'' 0,
          dict_get metrics ''comment_ratio'' 0,
          dict_get metrics ''avg_complexity'' 0,
          dict_get metrics ''max_complexity'' 0,
          dict_get metrics ''maintainability_index'' 0,
          dict_get metrics ''halstead_difficulty'' 0,
          real (length (smells_of a)),
          dict_get naming ''consistency_score'' 0,
          dict_get semantic ''vocabulary_richness'' 0,
          dict_get semantic ''comment_meaningfulness'' 0])"

definition feature_names :: "string list" where
  "feature_names =
     [''total_lines'', ''non_empty_lines'', ''comment_lines'', ''comment_ratio'',
      ''avg_complexity'', ''max_complexity'', ''maintainability_index'',
      ''halstead_difficulty'', ''smell_count'', ''naming_consistency'',
      ''vocabulary_richness'', ''comment_meaningfulness'']"

text \<open>
  \<open>extract_features\<close> returns the matrix and stores the names in \<open>self.feature_names\<close>;
  the stored names are the second component.
\<close>

definition extract_features :: "analysis list \<Rightarrow> real list list \<times> string list" where
  "extract_features nlp_analyses = (map file_features_of nlp_analyses, feature_names)"

section \<open>Anomaly reports (anomaly\_detector.py)\<close>

text \<open>
  The scaler and the isolation forest belong to an external library, and so do the
  floating-point operations of the numerical library that the report uses. They are
  parameters of the model, the fields of one record: the scaler's \<open>fit_transform\<close>, the
  forest's \<open>fit_predict\<close> and \<open>score_samples\<close> after fitting, each a function of the
  matrix it is given; the mean and the standard deviation that \<open>np.mean\<close> and
  \<open>np.std\<close> compute for one column; and float addition, subtraction, multiplication
  and division, each with whatever rounding the machine applies. A float is the real
  number it denotes, so comparisons, absolute values and \<open>int()\<close> are exact.
  \<open>np.nan_to_num\<close> is the identity on reals and is left out.
\<close>

record learner =
  fit_transform :: "real list list \<Rightarrow> real list list"
  fit_predict :: "real list list \<Rightarrow> int list"
  score_samples :: "real list list \<Rightarrow> real list"
  col_mean :: "real list \<Rightarrow> real"
  col_std :: "real list \<Rightarrow> real"
  float_add :: "real \<Rightarrow> real \<Rightarrow> real"
  float_sub :: "real \<Rightarrow> real \<Rightarrow> real"
  float_mul :: "real \<Rightarrow> real \<Rightarrow> real"
  float_div :: "real \<Rightarrow> real \<Rightarrow> real"

text \<open>
  \<open>np.mean\<close> and \<open>np.std\<close> along axis 0 work on the columns of the matrix.
\<close>

definition mean_axis0 :: "learner \<Rightarrow> real list list \<Rightarrow> real list" where
  "mean_axis0 sk m = map (col_mean sk) (transpose m)"

definition std_axis0 :: "learner \<Rightarrow> real list list \<Rightarrow> real list" where
  "std_axis0 sk m = map (col_std sk) (transpose m)"

text \<open>
  The population standard deviation over exact reals: the value that \<open>np.std\<close>
  approximates, used where an example computes without rounding.
\<close>

definition np_std :: "real list \<Rightarrow> real" where
  "np_std xs = sqrt (np_mean (map (\<lambda>x. \<bar>x - np_mean xs\<bar> ^ 2) xs))"

text \<open>
  A reason holds the numbers that the source formats into its sentence; the description
  is either the reasons joined by \<open>'; '\<close> or the fixed text.
\<close>

datatype reason =
    High_complexity real real
  | Large_file int int
  | Low_documentation real real
  | Inconsistent_naming real real
  | Multiple_code_smells int

datatype description = Joined "reason list" | Text string

datatype py_error = IndexError

record anomaly_metrics =
  complexity :: real
  lines :: int
  comment_ratio :: real
  smell_count :: int

record anomaly_report =
  report_file :: string
  score :: int
  types :: "string list"
  description :: description
  report_metrics :: anomaly_metrics

text \<open>
  The body of the loop over
  \<open>zip(self.feature_names, file_features, feature_means, feature_stds)\<close>: one step
  updates \<open>anomaly_types\<close> and \<open>reasons\<close>.
\<close>

definition attribute_step ::
  "learner \<Rightarrow> string \<times> real \<times> real \<times> real \<Rightarrow> string list \<times> reason list
     \<Rightarrow> string list \<times> reason list"
  where
  "attribute_step sk x acc =
     (case (x, acc) of ((feature_name, v, mean, std), (anomaly_types, reasons)) \<Rightarrow>
        if 0 < std then
          let z_score = \<bar>float_div sk (float_sub sk v mean) std\<bar>
          in if 2 < z_score then
               if feature_name = ''avg_complexity'' \<and> mean < v then
                 (anomaly_types @ [''complexity''], reasons @ [High_complexity v mean])
               else if feature_name = ''total_lines'' \<and> mean < v then
                 (anomaly_types @ [''size''], reasons @ [Large_file (py_int v) (py_int mean)])
               else if feature_name = ''comment_ratio'' \<and> v < mean then
                 (anomaly_types @ [''documentation''], reasons @ [Low_documentation v mean])
               else if feature_name = ''naming_consistency'' \<and> v < mean then
                 (anomaly_types @ [''naming''], reasons @ [Inconsistent_naming v mean])
               else if feature_name = ''smell_count'' \<and> mean < v then
                 (anomaly_types @ [''code_smells''], reasons @ [Multiple_code_smells (py_int v)])
               else (anomaly_types, reasons)
             else (anomaly_types, reasons)
        else (anomaly_types, reasons))"

fun attribute_loop ::
  "learner \<Rightarrow> (string \<times> real \<times> real \<times> real) list \<Rightarrow> string list \<times> reason list
     \<Rightarrow> string list \<times> reason list" where
  "attribute_loop sk [] acc = acc"
| "attribute_loop sk (x # rest) acc = attribute_loop sk rest (attribute_step sk x acc)"

text \<open>
  \<open>names\<close> is \<open>self.feature_names\<close>. Reading \<open>file_features[8]\<close> in a shorter vector
  raises \<open>IndexError\<close>.
\<close>

definition create_anomaly_report ::
  "learner \<Rightarrow> string list \<Rightarrow> analysis \<Rightarrow> real list \<Rightarrow> real \<Rightarrow> real list list
     \<Rightarrow> py_error + anomaly_report"
  where
  "create_anomaly_report sk names a file_features anomaly_score all_features =
     (let fname = (case filename a of None \<Rightarrow> ''unknown'' | Some f \<Rightarrow> f);
          normalized_score0 =
            py_int (float_mul sk (float_sub sk 1 (float_add sk anomaly_score (1 / 2))) 100);
          normalized_score = max 0 (min 100 normalized_score0);
          feature_means = mean_axis0 sk all_features;
          feature_stds = std_axis0 sk all_features;
          (anomaly_types, reasons) =
            attribute_loop sk
              (zip names (zip file_features (zip feature_means feature_stds))) ([], [])
      in if length file_features < 9 then Inl IndexError
         else Inr \<lparr>report_file = fname,
                   score = normalized_score,
                   types = (if anomaly_types \<noteq> [] then anomaly_types else [''general'']),
                   description = (if reasons \<noteq> [] then Joined reasons
                                  else Text ''Statistical outlier in code metrics''),
                   report_metrics = \<lparr>complexity = file_features ! 4,
                                      lines = py_int (file_features ! 0),
                                      comment_ratio = file_features ! 3,
                                      smell_count = py_int (file_features ! 8)\<rparr>\<rparr>)"

section \<open>Anomaly detection (anomaly\_detector.py)\<close>

text \<open>The loop over \<open>enumerate(zip(predictions, anomaly_scores, nlp_analyses))\<close>.\<close>

fun report_loop ::
  "learner \<Rightarrow> string list \<Rightarrow> real list list \<Rightarrow> (nat \<times> int \<times> real \<times> analysis) list
     \<Rightarrow> anomaly_report list \<Rightarrow> py_error + anomaly_report list" where
  "report_loop sk names features [] anomalies = Inr anomalies"
| "report_loop sk names features ((i, pred, sc, a) # rest) anomalies =
     (if pred = - 1 then
        (case create_anomaly_report sk names a (features ! i) sc features of
           Inl e \<Rightarrow> Inl e
         | Inr anomaly \<Rightarrow> report_loop sk names features rest (anomalies @ [anomaly]))
      else report_loop sk names features rest anomalies)"

text \<open>
  \<open>list.sort(key=..., reverse=True)\<close>: a stable sort in descending key order, elements
  with equal keys keeping their original order.
\<close>

definition sort_reverse :: "('a \<Rightarrow> int) \<Rightarrow> 'a list \<Rightarrow> 'a list" where
  "sort_reverse key xs = rev (sort_key key (rev xs))"

definition detect_anomalies :: "learner \<Rightarrow> analysis list \<Rightarrow> py_error + anomaly_report list" where
  "detect_anomalies sk nlp_analyses =
     (if nlp_analyses = [] \<or> length nlp_analyses < 3 then Inr []
      else
        let (features, names) = extract_features nlp_analyses;
            features_scaled = fit_transform sk features;
            predictions = fit_predict sk features_scaled;
            anomaly_scores = score_samples sk features_scaled;
            rows = zip predictions (zip anomaly_scores nlp_analyses)
        in (case report_loop sk names features (zip [0..<length rows] rows) [] of
              Inl e \<Rightarrow> Inl e
            | Inr anomalies \<Rightarrow> Inr (sort_reverse score anomalies)))"

definition detect_code_anomalies :: "learner \<Rightarrow> analysis list \<Rightarrow> py_error + anomaly_report list"
  where
  "detect_code_anomalies sk nlp_analyses = detect_anomalies sk nlp_analyses"

section \<open>The specification's formulas\<close>




text \<open>
  Matching that ignores case, stated without lower-casing anything: a smell contains a
  keyword when some run of its code points has the keyword's length and shows, at each
  position, the keyword's character in one of its case forms. The case forms of a small
  letter are the letter and its capital, and for \<open>k\<close> also the Kelvin sign.
\<close>

definition case_forms :: "nat \<Rightarrow> nat set" where
  "case_forms k =
     {k} \<union> (if 97 \<le> k \<and> k \<le> 122 then {k - 32} else {}) \<union> (if k = 107 then {8490} else {})"

definition same_ignoring_case :: "py_str \<Rightarrow> py_str \<Rightarrow> bool" where
  "same_ignoring_case keyword w = list_all2 (\<lambda>k c. c \<in> case_forms k) keyword w"

definition contains_ci :: "string \<Rightarrow> py_str \<Rightarrow> bool" where
  "contains_ci keyword smell =
     (\<exists>p w q. smell = p @ w @ q \<and> same_ignoring_case (str_of keyword) w)"

definition mentions_security_keyword :: "py_str \<Rightarrow> bool" where
  "mentions_security_keyword smell =
     (contains_ci ''password'' smell \<or> contains_ci ''secret'' smell
      \<or> contains_ci ''token'' smell \<or> contains_ci ''api_key'' smell
      \<or> contains_ci ''private_key'' smell)"

text \<open>
  The feature vector as the specification words it: twelve numbers in a fixed order, a
  missing numeric field read as 0.
\<close>

definition coerce_missing :: "real option \<Rightarrow> real" where
  "coerce_missing v = (case v of None \<Rightarrow> 0 | Some x \<Rightarrow> x)"

definition lookup_in :: "num_dict option \<Rightarrow> string \<Rightarrow> real option" where
  "lookup_in d k = (case d of None \<Rightarrow> None | Some m \<Rightarrow> map_of m k)"

definition feature_vector_spec :: "analysis \<Rightarrow> real list" where
  "feature_vector_spec a =
     [coerce_missing (map_of (metrics a) ''total_lines''),
      coerce_missing (map_of (metrics a) ''non_empty_lines''),
      coerce_missing (map_of (metrics a) ''comment_lines''),
      coerce_missing (map_of (metrics a) ''comment_ratio''),
      coerce_missing (map_of (metrics a) ''avg_complexity''),
      coerce_missing (map_of (metrics a) ''max_complexity''),
      coerce_missing (map_of (metrics a) ''maintainability_index''),
      coerce_missing (map_of (metrics a) ''halstead_difficulty''),
      real (length (case smells a of None \<Rightarrow> [] | Some l \<Rightarrow> l)),
      coerce_missing (lookup_in (naming a) ''consistency_score''),
      coerce_missing (lookup_in (semantic a) ''vocabulary_richness''),
      coerce_missing (lookup_in (semantic a) ''comment_meaningfulness'')]"

text \<open>The record returned for a file that is not analysed.\<close>

definition near_empty_record :: "string \<Rightarrow> analysis" where
  "near_empty_record fname =
     \<lparr>filename = Some fname, metrics = [], smells = Some [], naming = Some [],
      documentation = [], semantic = None, error = None\<rparr>"


definition z_score :: "learner \<Rightarrow> real \<Rightarrow> real list \<Rightarrow> real" where
  "z_score sk v col = float_div sk (float_sub sk v (col_mean sk col)) (col_std sk col)"







section \<open>Example inputs\<close>




text \<open>
  A file with four smells: one in lower case, one in capitals, one spelt with the Kelvin
  sign (\<open>TO\<close>, U+212A, \<open>EN\<close>), and one that names no keyword.
\<close>

definition security_example_file :: analysis where
  "security_example_file =
     \<lparr>filename = Some ''config.py'',
      metrics = [(''total_lines'', 100), (''max_complexity'', 16)],
      smells = Some [str_of ''Hardcoded password found'', str_of ''API_KEY in Config'',
                     [84, 79, 8490, 69, 78], str_of ''Long function main: 60 lines''],
      naming = Some [], documentation = [], semantic = None, error = None\<rparr>"






section \<open>Definitions used in the proofs\<close>

text \<open>
  A keyword whose characters are ASCII and not capitals, and which does not end in
  \<open>i\<close>: the shape of the five keywords.
\<close>

definition plain_keyword :: "py_str \<Rightarrow> bool" where
  "plain_keyword kw =
     (list_all (\<lambda>k. k < 128 \<and> \<not> (65 \<le> k \<and> k \<le> 90)) kw \<and> (kw \<noteq> [] \<longrightarrow> last kw \<noteq> 105))"





section \<open>Auxiliary facts\<close>

lemma collect_contributors_eq:
  "collect_contributors cs acc =
     acc \<union> {a. a \<noteq> [] \<and> Some a \<in> commit_author_name ` set cs}"
  by (induction cs arbitrary: acc) (auto simp: truthy_str_def split: option.splits)

lemma round_half_even_of_int: "round_half_even (of_int k) = k"
  by (simp add: round_half_even_def)

lemma py_round_41: "py_round 41 1 = 41"
proof -
  have "round_half_even (of_int 410) = 410" by (rule round_half_even_of_int)
  then show ?thesis by (simp add: py_round_def)
qed

lemma py_round_0: "py_round 0 n = 0"
  by (simp add: py_round_def round_half_even_def)












lemma lower_cp_single:
  assumes "k < 128" and "\<not> (65 \<le> k \<and> k \<le> 90)"
  shows "lower_cp c = [k] \<longleftrightarrow> c \<in> case_forms k"
  using assms by (auto simp: lower_cp_def case_forms_def)

lemma lower_cp_singleton: "c \<noteq> 304 \<Longrightarrow> \<exists>x. lower_cp c = [x]"
  by (simp add: lower_cp_def)

lemma plain_keyword_tl: "plain_keyword (k # ks) \<Longrightarrow> plain_keyword ks"
  by (auto simp: plain_keyword_def)

lemma plain_keyword_hd:
  "plain_keyword (k # ks) \<Longrightarrow> k < 128 \<and> \<not> (65 \<le> k \<and> k \<le> 90)"
  by (auto simp: plain_keyword_def)

lemma startswith_dotted_i:
  assumes "plain_keyword (k # ks)"
  shows "\<not> startswith (105 # 775 # rest) (k # ks)"
proof (cases ks)
  case Nil
  then have "k \<noteq> 105" using assms by (simp add: plain_keyword_def)
  then show ?thesis using Nil by simp
next
  case (Cons k2 ks2)
  then have "k2 < 128" using assms by (simp add: plain_keyword_def)
  then show ?thesis using Cons by simp
qed

lemma startswith_lower:
  assumes "plain_keyword kw"
  shows "startswith (py_lower s) kw \<longleftrightarrow> (\<exists>w q. s = w @ q \<and> same_ignoring_case kw w)"
  using assms
proof (induction kw arbitrary: s)
  case Nil
  then show ?case by (simp add: same_ignoring_case_def)
next
  case (Cons k ks)
  have pk: "plain_keyword ks" using Cons.prems by (rule plain_keyword_tl)
  have hk: "k < 128" "\<not> (65 \<le> k \<and> k \<le> 90)" using plain_keyword_hd[OF Cons.prems] by auto
  show ?case
  proof (cases s)
    case Nil
    then show ?thesis by (simp add: py_lower_def same_ignoring_case_def)
  next
    case (Cons c cs)
    have rhs: "(\<exists>w q. c # cs = w @ q \<and> same_ignoring_case (k # ks) w)
                 \<longleftrightarrow> (c \<in> case_forms k \<and> (\<exists>w q. cs = w @ q \<and> same_ignoring_case ks w))"
      (is "?A \<longleftrightarrow> ?B")
    proof
      assume ?A
      then obtain w q where w: "c # cs = w @ q" "same_ignoring_case (k # ks) w" by blast
      then obtain c' w' where w': "w = c' # w'" "c' \<in> case_forms k" "same_ignoring_case ks w'"
        by (auto simp: same_ignoring_case_def list_all2_Cons1)
      then show ?B using w(1) by auto
    next
      assume ?B
      then obtain w q where "c \<in> case_forms k" "cs = w @ q" "same_ignoring_case ks w" by blast
      then have "c # cs = (c # w) @ q \<and> same_ignoring_case (k # ks) (c # w)"
        by (simp add: same_ignoring_case_def)
      then show ?A by blast
    qed
    show ?thesis
    proof (cases "c = 304")
      case True
      have "py_lower s = 105 # 775 # py_lower cs"
        using Cons True by (simp add: py_lower_def lower_cp_def)
      then have l: "\<not> startswith (py_lower s) (k # ks)"
        using startswith_dotted_i[OF Cons.prems] by simp
      have "c \<notin> case_forms k" using True hk by (auto simp: case_forms_def)
      then show ?thesis using l rhs Cons by simp
    next
      case False
      then obtain x where x: "lower_cp c = [x]" using lower_cp_singleton by blast
      then have "py_lower s = x # py_lower cs" using Cons by (simp add: py_lower_def)
      then have "startswith (py_lower s) (k # ks) \<longleftrightarrow> (x = k \<and> startswith (py_lower cs) ks)"
        by simp
      also have "\<dots> \<longleftrightarrow> (c \<in> case_forms k \<and> (\<exists>w q. cs = w @ q \<and> same_ignoring_case ks w))"
        using lower_cp_single[OF hk, of c] x Cons.IH[OF pk, of cs] by auto
      finally show ?thesis using rhs Cons by simp
    qed
  qed
qed

lemma py_in_lower_step:
  assumes "plain_keyword kw" and "kw \<noteq> []"
  shows "py_in kw (py_lower (c # cs))
           \<longleftrightarrow> (startswith (py_lower (c # cs)) kw \<or> py_in kw (py_lower cs))"
proof (cases "c = 304")
  case True
  obtain k ks where kw: "kw = k # ks" using assms(2) by (cases kw) auto
  have "k < 128" using assms(1) kw by (simp add: plain_keyword_def)
  then have "\<not> startswith (775 # py_lower cs) kw" using kw by simp
  moreover have "py_lower (c # cs) = 105 # 775 # py_lower cs"
    using True by (simp add: py_lower_def lower_cp_def)
  ultimately show ?thesis by simp
next
  case False
  then obtain x where "lower_cp c = [x]" using lower_cp_singleton by blast
  then have "py_lower (c # cs) = x # py_lower cs" by (simp add: py_lower_def)
  then show ?thesis by simp
qed

lemma py_in_lower:
  assumes "plain_keyword kw" and "kw \<noteq> []"
  shows "py_in kw (py_lower s) \<longleftrightarrow> (\<exists>p w q. s = p @ w @ q \<and> same_ignoring_case kw w)"
proof (induction s)
  case Nil
  have "\<not> same_ignoring_case kw []" using assms(2) by (simp add: same_ignoring_case_def)
  then show ?case using assms(2) by (simp add: py_lower_def)
next
  case (Cons c cs)
  have "(\<exists>p w q. c # cs = p @ w @ q \<and> same_ignoring_case kw w)
          \<longleftrightarrow> ((\<exists>w q. c # cs = w @ q \<and> same_ignoring_case kw w)
               \<or> (\<exists>p w q. cs = p @ w @ q \<and> same_ignoring_case kw w))"
    (is "?A \<longleftrightarrow> ?B \<or> ?C")
  proof
    assume ?A
    then obtain p w q where pw: "c # cs = p @ w @ q" "same_ignoring_case kw w" by blast
    show "?B \<or> ?C"
    proof (cases p)
      case Nil
      then show ?thesis using pw by auto
    next
      case (Cons a p')
      then have "cs = p' @ w @ q" using pw(1) by simp
      then show ?thesis using pw(2) by blast
    qed
  next
    assume "?B \<or> ?C"
    then show ?A
    proof
      assume ?B
      then obtain w q where "c # cs = [] @ w @ q" "same_ignoring_case kw w" by auto
      then show ?A by blast
    next
      assume ?C
      then obtain p w q where "cs = p @ w @ q" "same_ignoring_case kw w" by blast
      then have "c # cs = (c # p) @ w @ q" by simp
      then show ?A using \<open>same_ignoring_case kw w\<close> by blast
    qed
  qed
  then show ?case
    using py_in_lower_step[OF assms, of c cs] startswith_lower[OF assms(1), of "c # cs"] Cons.IH
    by simp
qed

lemma keywords_plain:
  "plain_keyword (str_of ''password'')" "plain_keyword (str_of ''secret'')"
  "plain_keyword (str_of ''token'')" "plain_keyword (str_of ''api_key'')"
  "plain_keyword (str_of ''private_key'')"
  by (simp_all add: plain_keyword_def str_of_def)

lemma keywords_nonempty:
  "str_of ''password'' \<noteq> []" "str_of ''secret'' \<noteq> []" "str_of ''token'' \<noteq> []"
  "str_of ''api_key'' \<noteq> []" "str_of ''private_key'' \<noteq> []"
  by (simp_all add: str_of_def)

lemma keyword_in_lower:
  "py_in (str_of ''password'') (py_lower s) = contains_ci ''password'' s"
  "py_in (str_of ''secret'') (py_lower s) = contains_ci ''secret'' s"
  "py_in (str_of ''token'') (py_lower s) = contains_ci ''token'' s"
  "py_in (str_of ''api_key'') (py_lower s) = contains_ci ''api_key'' s"
  "py_in (str_of ''private_key'') (py_lower s) = contains_ci ''private_key'' s"
  unfolding contains_ci_def
  by (rule py_in_lower, rule keywords_plain, rule keywords_nonempty)+

lemma is_security_smell_iff: "is_security_smell smell = mentions_security_keyword smell"
  by (simp add: is_security_smell_def mentions_security_keyword_def security_keywords_def
      keyword_in_lower)

lemma count_in_smells_eq:
  "count_in_smells ss n = n + length (filter is_security_smell ss)"
  by (induction ss arbitrary: n) auto

lemma count_in_analyses_eq:
  "count_in_analyses as n = n + length (filter is_security_smell (concat (map smells_of as)))"
  by (induction as arbitrary: n) (auto simp: count_in_smells_eq)

lemma total_smells_sum_concat:
  "total_smells_sum as = length (concat (map smells_of as))"
  by (induction as) (auto simp: total_smells_sum_def)

lemma hardcoded_password_is_security_smell:
  "is_security_smell (str_of ''Hardcoded password found'')"
  by (simp add: is_security_smell_def security_keywords_def py_lower_def lower_cp_def str_of_def)

lemma file_features_of_spec: "file_features_of a = feature_vector_spec a"
  by (simp add: file_features_of_def feature_vector_spec_def dict_get_def coerce_missing_def
      lookup_in_def opt_dict_def smells_of_def Let_def split: option.splits)

lemma py_split_nonempty: "py_split sep s \<noteq> []"
  by (induction s) (auto split: list.splits)

lemma build_nlp_analyses_eq:
  "build_nlp_analyses body files acc =
     acc @ map (\<lambda>fd. analyze_code_file body (name fd) (content fd) False) files"
  by (induction files arbitrary: acc) auto

lemma create_anomaly_report_score:
  assumes "create_anomaly_report sk names a ff sc m = Inr r"
  shows "0 \<le> score r \<and> score r \<le> 100"
  using assms
  by (auto simp: create_anomaly_report_def Let_def split: prod.splits if_splits)

lemma create_anomaly_report_total:
  assumes "9 \<le> length ff"
  shows "\<exists>r. create_anomaly_report sk names a ff sc m = Inr r"
  using assms
  by (auto simp: create_anomaly_report_def Let_def split: prod.splits)

lemma report_loop_total:
  assumes "\<And>i p s a. (i, p, s, a) \<in> set rows \<Longrightarrow> 9 \<le> length (features ! i)"
  shows "\<exists>rs. report_loop sk names features rows acc = Inr (acc @ rs)
              \<and> list_all (\<lambda>r. 0 \<le> score r \<and> score r \<le> 100) rs"
  using assms
proof (induction rows arbitrary: acc)
  case Nil
  then show ?case by simp
next
  case (Cons x rows)
  obtain i p s a where x: "x = (i, p, s, a)" by (cases x) auto
  have rest: "\<exists>rs. report_loop sk names features rows acc' = Inr (acc' @ rs)
              \<and> list_all (\<lambda>r. 0 \<le> score r \<and> score r \<le> 100) rs" for acc'
    using Cons.IH Cons.prems by (meson list.set_intros(2))
  show ?case
  proof (cases "p = - 1")
    case False
    then show ?thesis using rest[of acc] x by simp
  next
    case True
    have "9 \<le> length (features ! i)" using Cons.prems x by (meson list.set_intros(1))
    then obtain r where r: "create_anomaly_report sk names a (features ! i) s features = Inr r"
      using create_anomaly_report_total by blast
    then have sc: "0 \<le> score r \<and> score r \<le> 100" by (rule create_anomaly_report_score)
    obtain rs where rs: "report_loop sk names features rows (acc @ [r]) = Inr ((acc @ [r]) @ rs)"
      "list_all (\<lambda>r. 0 \<le> score r \<and> score r \<le> 100) rs"
      using rest[of "acc @ [r]"] by blast
    have "report_loop sk names features (x # rows) acc = Inr (acc @ (r # rs))"
      using True x r rs(1) by simp
    moreover have "list_all (\<lambda>r. 0 \<le> score r \<and> score r \<le> 100) (r # rs)"
      using sc rs(2) by simp
    ultimately show ?thesis by blast
  qed
qed

lemma sort_reverse_descending: "sorted_wrt (\<lambda>x y. y \<le> x) (map key (sort_reverse key xs))"
proof -
  have "sorted (map key (sort_key key (rev xs)))" by (rule sorted_sort_key)
  then have "sorted_wrt (\<lambda>x y. y \<le> x) (rev (map key (sort_key key (rev xs))))"
    by (simp add: sorted_wrt_rev)
  then show ?thesis by (simp add: sort_reverse_def rev_map)
qed

lemma set_sort_reverse: "set (sort_reverse key xs) = set xs"
  by (simp add: sort_reverse_def)

lemma enumerate_index_bound: "(i, x) \<in> set (zip [0..<n] xs) \<Longrightarrow> i < n"
  by (auto dest: set_zip_leftD)

lemma features_row_length:
  "i < length nlp \<Longrightarrow> length (fst (extract_features nlp) ! i) = 12"
  by (simp add: extract_features_def file_features_of_def Let_def)

lemma detect_anomalies_rows:
  assumes "(i, p, s, a) \<in> set (zip [0..<length (zip ps (zip ss nlp))] (zip ps (zip ss nlp)))"
  shows "i < length nlp"
proof -
  have "i < length (zip ps (zip ss nlp))" using assms by (rule enumerate_index_bound)
  then show ?thesis by simp
qed




























section \<open>Productivity\<close>

text \<open>
  Claim C1. Five commits that all carry the same (non-empty) author name, together with
  an empty pull-request list, give commit frequency 5, merge rate 0, one active
  contributor and the productivity score 0.4 * 50 + 0.3 * 50 + 0.3 * 20 = 41.0. The
  author name of a commit is the one the code reads at \<open>commit.author.name\<close>.
\<close>

theorem productivity_five_commits_one_author:
  assumes len: "length cs = 5"
      and same: "\<forall>c \<in> set cs. commit_author_name c = Some n"
      and nonempty: "n \<noteq> []"
  shows "calculate_productivity_kpis (Some cs) (Some []) =
           \<lparr>productivity_score = 41, commit_frequency = 5, pr_merge_rate = 0,
            avg_pr_size = 0, active_contributors = 1\<rparr>"
proof -
  from len have ne: "cs \<noteq> []" by auto
  have "{a. a \<noteq> [] \<and> Some a \<in> commit_author_name ` set cs} = {n}"
    using same nonempty ne by (cases cs) (auto simp: image_iff)
  then have contrib: "collect_contributors cs {} = {n}"
    by (simp add: collect_contributors_eq)
  show ?thesis
    using ne len contrib py_round_41 py_round_0
    by (simp add: calculate_productivity_kpis_def truthy_list_def Let_def)
qed

theorem productivity_five_commits_one_author_witness:
  "calculate_productivity_kpis
     (Some (replicate 5 (Commit (Some (Commit_Dict (Some (Author_Dict (Some ''User1''))))))))
     (Some []) =
   \<lparr>productivity_score = 41, commit_frequency = 5, pr_merge_rate = 0,
    avg_pr_size = 0, active_contributors = 1\<rparr>"
  using productivity_five_commits_one_author
    [of "replicate 5 (Commit (Some (Commit_Dict (Some (Author_Dict (Some ''User1''))))))"
        "''User1''"]
  by (simp add: commit_author_name_def)

text \<open>
  Claim C10. For a non-empty metrics batch whose commit list and pull-request list are
  both empty or absent, the productivity category has every field zero: the score is 0,
  and the default of 50 for a missing pull-request workflow is not applied.
\<close>

theorem productivity_without_activity_is_zero:
  assumes "nlp_analyses \<noteq> []"
      and "commits = None \<or> commits = Some []"
      and "prs = None \<or> prs = Some []"
  shows "productivity (calculate_kpis nlp_analyses repo_data commits prs now) =
           Some \<lparr>productivity_score = 0, commit_frequency = 0, pr_merge_rate = 0,
                 avg_pr_size = 0, active_contributors = 0\<rparr>"
  using assms
  by (auto simp: calculate_kpis_def calculate_productivity_kpis_def truthy_list_def Let_def)

theorem productivity_without_activity_is_zero_witness:
  "productivity
     (calculate_kpis
        [\<lparr>filename = Some ''a.py'', metrics = [], smells = Some [], naming = Some [],
          documentation = [], semantic = None, error = None\<rparr>] () None (Some []) ''t'') =
   Some \<lparr>productivity_score = 0, commit_frequency = 0, pr_merge_rate = 0,
         avg_pr_size = 0, active_contributors = 0\<rparr>"
  using productivity_without_activity_is_zero
    [of "[\<lparr>filename = Some ''a.py'', metrics = [], smells = Some [], naming = Some [],
           documentation = [], semantic = None, error = None\<rparr>]" None "Some []" "()" "''t''"]
  by simp

section \<open>Empty and small batches\<close>

text \<open>
  Claim C9. For the empty metrics batch every category of the KPI report is the empty
  structure, the overall health score is 0, the number of analysed files is 0 and the
  grade is N/A, a value the grade function never returns for any score; the anomaly
  list for the empty batch is empty.
\<close>

theorem empty_batch_gives_empty_report:
  "quality (calculate_kpis [] repo_data commits prs now) = None
   \<and> maintainability (calculate_kpis [] repo_data commits prs now) = None
   \<and> productivity (calculate_kpis [] repo_data commits prs now) = None
   \<and> security (calculate_kpis [] repo_data commits prs now) = None
   \<and> overall_health_score (summary (calculate_kpis [] repo_data commits prs now)) = 0
   \<and> grade (summary (calculate_kpis [] repo_data commits prs now)) = ''N/A''
   \<and> analyzed_files (summary (calculate_kpis [] repo_data commits prs now)) = 0
   \<and> score_to_grade s \<noteq> ''N/A''
   \<and> detect_anomalies sk [] = Inr []"
  by (simp add: calculate_kpis_def empty_kpis_def score_to_grade_def detect_anomalies_def)

text \<open>
  Claim C3. A batch of fewer than three records, the empty batch included, yields the
  empty anomaly list and no error, whatever the learner does.
\<close>

theorem small_batch_no_anomalies:
  assumes "length nlp_analyses < 3"
  shows "detect_anomalies sk nlp_analyses = Inr []"
  using assms by (simp add: detect_anomalies_def)

theorem small_batch_no_anomalies_witness:
  "detect_anomalies
     \<lparr>fit_transform = (\<lambda>m. m), fit_predict = (\<lambda>m. [- 1, - 1]),
      score_samples = (\<lambda>m. [0, 0]), col_mean = np_mean, col_std = np_std,
      float_add = (\<lambda>x y. x + y), float_sub = (\<lambda>x y. x - y),
      float_mul = (\<lambda>x y. x * y), float_div = (\<lambda>x y. x / y)\<rparr>
     [\<lparr>filename = Some ''a.py'', metrics = [(''total_lines'', 10)], smells = Some [],
       naming = Some [], documentation = [], semantic = None, error = None\<rparr>,
      \<lparr>filename = Some ''b.py'', metrics = [(''total_lines'', 900)], smells = Some [],
       naming = Some [], documentation = [], semantic = None, error = None\<rparr>] = Inr []"
  using small_batch_no_anomalies
    [of "[\<lparr>filename = Some ''a.py'', metrics = [(''total_lines'', 10)], smells = Some [],
           naming = Some [], documentation = [], semantic = None, error = None\<rparr>,
          \<lparr>filename = Some ''b.py'', metrics = [(''total_lines'', 900)], smells = Some [],
           naming = Some [], documentation = [], semantic = None, error = None\<rparr>]"
        "\<lparr>fit_transform = (\<lambda>m. m), fit_predict = (\<lambda>m. [- 1, - 1]),
          score_samples = (\<lambda>m. [0, 0]), col_mean = np_mean, col_std = np_std,
          float_add = (\<lambda>x y. x + y), float_sub = (\<lambda>x y. x - y),
          float_mul = (\<lambda>x y. x * y), float_div = (\<lambda>x y. x / y)\<rparr>"]
  by simp

section \<open>Quality and security scores\<close>




text \<open>
  Claim C7. For a non-empty metrics batch the security issue count is the number of
  smell strings that contain, ignoring case, one of the keywords password, secret, token,
  api\_key, private\_key; the high-complexity count is the number of files whose maximal
  complexity exceeds 15; the risk score is ten times the issues plus five times the
  high-complexity files plus twice the number of smells, clamped to the interval from 0
  to 100; and a batch with the smell "Hardcoded password found" counts at least one
  security issue.
\<close>

theorem security_kpis_formula:
  assumes "nlp_analyses \<noteq> []"
  shows "security (calculate_kpis nlp_analyses repo_data commits prs now) =
           Some (calculate_security_kpis nlp_analyses)
         \<and> security_issue_count (calculate_security_kpis nlp_analyses) =
             length (filter mentions_security_keyword (concat (map smells_of nlp_analyses)))
         \<and> high_complexity_files (calculate_security_kpis nlp_analyses) =
             length (filter (\<lambda>a. 15 < dict_get (metrics a) ''max_complexity'' 0) nlp_analyses)
         \<and> int (risk_score (calculate_security_kpis nlp_analyses)) =
             max 0 (min 100
               (10 * int (security_issue_count (calculate_security_kpis nlp_analyses))
                + 5 * int (high_complexity_files (calculate_security_kpis nlp_analyses))
                + 2 * int (length (concat (map smells_of nlp_analyses)))))
         \<and> (str_of ''Hardcoded password found'' \<in> set (concat (map smells_of nlp_analyses))
              \<longrightarrow> 1 \<le> security_issue_count (calculate_security_kpis nlp_analyses))"
proof -
  let ?all = "concat (map smells_of nlp_analyses)"
  have cnt: "security_issue_count (calculate_security_kpis nlp_analyses) =
               length (filter is_security_smell ?all)"
    by (simp add: calculate_security_kpis_def Let_def count_in_analyses_eq)
  have mem: "1 \<le> length (filter is_security_smell ?all)"
    if "str_of ''Hardcoded password found'' \<in> set ?all"
  proof -
    from that
    have "str_of ''Hardcoded password found'' \<in> set (filter is_security_smell ?all)"
      using hardcoded_password_is_security_smell by (simp del: set_concat)
    then have "0 < length (filter is_security_smell ?all)"
      by (rule length_pos_if_in_set)
    then show ?thesis by linarith
  qed
  have c1: "security (calculate_kpis nlp_analyses repo_data commits prs now) =
           Some (calculate_security_kpis nlp_analyses)"
    using assms by (simp add: calculate_kpis_def Let_def)
  have c2: "security_issue_count (calculate_security_kpis nlp_analyses) =
             length (filter mentions_security_keyword ?all)"
    using cnt is_security_smell_iff by presburger
  have c3: "high_complexity_files (calculate_security_kpis nlp_analyses) =
             length (filter (\<lambda>a. 15 < dict_get (metrics a) ''max_complexity'' 0) nlp_analyses)"
    by (simp add: calculate_security_kpis_def Let_def)
  have c4: "int (risk_score (calculate_security_kpis nlp_analyses)) =
             max 0 (min 100
               (10 * int (security_issue_count (calculate_security_kpis nlp_analyses))
                + 5 * int (high_complexity_files (calculate_security_kpis nlp_analyses))
                + 2 * int (length ?all)))"
    by (simp add: calculate_security_kpis_def Let_def total_smells_sum_concat min_def max_def)
  have c5: "str_of ''Hardcoded password found'' \<in> set ?all
              \<longrightarrow> 1 \<le> security_issue_count (calculate_security_kpis nlp_analyses)"
    using mem cnt by simp
  show ?thesis using c1 c2 c3 c4 c5 by blast
qed

theorem security_kpis_formula_witness:
  "security_issue_count (calculate_security_kpis [security_example_file]) = 3
   \<and> risk_score (calculate_security_kpis [security_example_file]) = 43"
proof -
  have h: "[security_example_file] \<noteq> []" by simp
  have sm: "concat (map smells_of [security_example_file]) =
              [str_of ''Hardcoded password found'', str_of ''API_KEY in Config'',
               [84, 79, 8490, 69, 78], str_of ''Long function main: 60 lines'']"
    by (simp add: security_example_file_def smells_of_def)
  have hc: "length (filter (\<lambda>a. 15 < dict_get (metrics a) ''max_complexity'' 0)
              [security_example_file]) = 1"
    by (simp add: security_example_file_def dict_get_def)
  have e: "is_security_smell (str_of ''Hardcoded password found'')"
    "is_security_smell (str_of ''API_KEY in Config'')"
    "is_security_smell [84, 79, 8490, 69, 78]"
    "\<not> is_security_smell (str_of ''Long function main: 60 lines'')"
    by (simp_all add: is_security_smell_def security_keywords_def py_lower_def lower_cp_def
        str_of_def)
  have f: "length (filter mentions_security_keyword
             [str_of ''Hardcoded password found'', str_of ''API_KEY in Config'',
              [84, 79, 8490, 69, 78], str_of ''Long function main: 60 lines'']) = 3"
    using e by (simp add: is_security_smell_iff[symmetric])
  note t = security_kpis_formula [OF h, of "()" None None "''t''", unfolded sm hc f]
  from t have cnt: "security_issue_count (calculate_security_kpis [security_example_file]) = 3"
    by blast
  from t have hcf: "high_complexity_files (calculate_security_kpis [security_example_file]) = 1"
    by blast
  from t have "int (risk_score (calculate_security_kpis [security_example_file])) =
             max 0 (min 100
               (10 * int (security_issue_count (calculate_security_kpis [security_example_file]))
                + 5 * int (high_complexity_files
                             (calculate_security_kpis [security_example_file]))
                + 2 * int (length
                    [str_of ''Hardcoded password found'', str_of ''API_KEY in Config'',
                     [84, 79, 8490, 69, 78], str_of ''Long function main: 60 lines''])))"
    by blast
  then have "int (risk_score (calculate_security_kpis [security_example_file])) = 43"
    by (simp add: cnt hcf)
  then have "risk_score (calculate_security_kpis [security_example_file]) = 43" by linarith
  with cnt show ?thesis by blast
qed

section \<open>Feature vectors and the extractor\<close>

text \<open>
  Claim C2. For every per-file record the feature vector has exactly twelve numbers in
  the order total lines, non-empty lines, comment lines, comment ratio, average
  complexity, maximal complexity, maintainability index, Halstead difficulty, smell
  count, naming consistency, vocabulary richness, comment meaningfulness, where a missing
  numeric field is 0; the matrix of a batch is made of these vectors.
\<close>

theorem feature_vector_fixed_order:
  "file_features_of a = feature_vector_spec a
   \<and> length (file_features_of a) = 12
   \<and> fst (extract_features nlp_analyses) = map feature_vector_spec nlp_analyses
   \<and> list_all (\<lambda>row. length row = 12) (fst (extract_features nlp_analyses))
   \<and> snd (extract_features nlp_analyses) = feature_names
   \<and> length feature_names = 12"
  by (simp add: file_features_of_spec extract_features_def feature_vector_spec_def
      feature_names_def list_all_iff)

text \<open>
  Claim C8. For a file name whose extension is not one of the supported code extensions,
  and any content and mode, the extractor returns the near-empty record without
  analysing the file; every entry of its feature vector is 0; and the loop that builds
  the batch keeps that record, at the position of the file.
\<close>

theorem unsupported_extension_near_empty_record:
  assumes "file_ext_of fname \<notin> set code_extensions"
  shows "analyze_code_file body fname src fast_mode = near_empty_record fname
         \<and> file_features_of (analyze_code_file body fname src fast_mode) = replicate 12 0
         \<and> (\<forall>before after p.
               build_nlp_analyses body
                 (before @ [\<lparr>path = p, name = fname, content = src\<rparr>] @ after) [] =
               build_nlp_analyses body before []
                 @ [near_empty_record fname]
                 @ build_nlp_analyses body after [])"
proof -
  have a: "analyze_code_file body fname src fast_mode = near_empty_record fname" for fast_mode
    using assms by (simp add: analyze_code_file_def near_empty_record_def Let_def)
  have b: "file_features_of (near_empty_record fname) = replicate 12 0"
    by (simp add: file_features_of_def near_empty_record_def dict_get_def opt_dict_def
        smells_of_def Let_def numeral_eq_Suc)
  show ?thesis using a b by (simp add: build_nlp_analyses_eq)
qed

theorem unsupported_extension_near_empty_record_witness:
  "analyze_code_file (\<lambda>r c e f. r\<lparr>metrics := [(''total_lines'', 1)]\<rparr>) ''README.md''
     ''# Title'' False = near_empty_record ''README.md''"
proof -
  have "file_ext_of ''README.md'' \<notin> set code_extensions"
    by (simp add: file_ext_of_def code_extensions_def)
  from unsupported_extension_near_empty_record [OF this] show ?thesis by blast
qed


section \<open>Anomaly reports\<close>

text \<open>
  Claim C4. For every batch and every behaviour of the learner and of the float
  arithmetic, detection returns a list of reports and no error; the score of every report
  is an integer between 0 and 100, and the list is in descending order of score.
\<close>

theorem anomaly_scores_bounded_and_sorted:
  "\<exists>rs. detect_anomalies sk nlp_analyses = Inr rs
        \<and> list_all (\<lambda>r. 0 \<le> score r \<and> score r \<le> 100) rs
        \<and> sorted_wrt (\<lambda>x y. score y \<le> score x) rs"
proof (cases "nlp_analyses = [] \<or> length nlp_analyses < 3")
  case True
  then show ?thesis by (auto simp: detect_anomalies_def)
next
  case False
  let ?features = "map file_features_of nlp_analyses"
  let ?scaled = "fit_transform sk ?features"
  let ?rows = "zip (fit_predict sk ?scaled) (zip (score_samples sk ?scaled) nlp_analyses)"
  have "\<And>i p s a. (i, p, s, a) \<in> set (zip [0..<length ?rows] ?rows)
          \<Longrightarrow> 9 \<le> length (?features ! i)"
  proof -
    fix i p s a assume "(i, p, s, a) \<in> set (zip [0..<length ?rows] ?rows)"
    then have "i < length nlp_analyses" by (rule detect_anomalies_rows)
    then show "9 \<le> length (?features ! i)"
      by (simp add: file_features_of_def Let_def)
  qed
  then obtain rs where rs:
    "report_loop sk feature_names ?features (zip [0..<length ?rows] ?rows) [] = Inr ([] @ rs)"
    "list_all (\<lambda>r. 0 \<le> score r \<and> score r \<le> 100) rs"
    using report_loop_total[of "zip [0..<length ?rows] ?rows" ?features sk feature_names "[]"]
    by blast
  have d: "detect_anomalies sk nlp_analyses = Inr (sort_reverse score rs)"
    using False rs(1) by (simp add: detect_anomalies_def extract_features_def Let_def)
  have b: "list_all (\<lambda>r. 0 \<le> score r \<and> score r \<le> 100) (sort_reverse score rs)"
    using rs(2) by (simp add: list_all_iff set_sort_reverse)
  have s: "sorted_wrt (\<lambda>x y. score y \<le> score x) (sort_reverse score rs)"
    using sort_reverse_descending[of score rs] by (simp add: sorted_wrt_map)
  show ?thesis using d b s by blast
qed





end
